theory Spec2Isabelle
  imports Complex_Main
begin

section \<open>The rocket launch simulator\<close>

text \<open>
  A shallow embedding of the rocket simulator: \<^verbatim>\<open>types.ts\<close>, \<^verbatim>\<open>exceptions.ts\<close>,
  \<^verbatim>\<open>stages.ts\<close>, \<^verbatim>\<open>rocketSystem.ts\<close> and \<^verbatim>\<open>commands.ts\<close>.

  Conventions of the embedding.
  \<^item> A TypeScript \<^verbatim>\<open>number\<close> that holds a quantity (fuel, altitude, speed) is a \<open>real\<close>.
    Every rate of the program is a multiple of one half and every state the program
    reaches holds multiples of one half of small magnitude (lemma \<open>reachable_exact\<close>
    below), on which IEEE double arithmetic is exact, so the real arithmetic of the model
    is the arithmetic of the program.  A \<^verbatim>\<open>number\<close> that holds a count (the stage counter,
    the seconds of a fast forward, which the command line reads with \<^verbatim>\<open>parseInt\<close>) is an
    \<open>int\<close>.
  \<^item> A method that mutates \<^verbatim>\<open>this\<close> takes the object and returns the new one.  A method
    that can throw returns the exception next to the object as it stands at the throw:
    \<open>(Some e, s')\<close> is a throw of \<open>e\<close> that leaves \<open>s'\<close>, \<open>(None, s')\<close> a normal return.
  \<^item> The logger and the observers are output sinks: \<^verbatim>\<open>ConsoleLogger\<close> prints and keeps
    its own history, \<^verbatim>\<open>ConsoleDisplay\<close> prints through the logger.  Neither touches the
    rocket nor throws, so calls to them are left out.  The \<^verbatim>\<open>catch\<close> blocks of the program
    log and rethrow the same exception, so they are the identity on the model's results.
\<close>

subsection \<open>types.ts\<close>

datatype MissionStatus =
    PRE_LAUNCH
  | CHECKS_IN_PROGRESS
  | READY_TO_LAUNCH
  | IN_FLIGHT
  | ORBIT_ACHIEVED
  | MISSION_FAILED

subsection \<open>exceptions.ts\<close>

text \<open>
  The three exception classes, each with its message.  \<open>InvalidCommandException\<close> and
  \<open>InvalidStateException\<close> extend \<open>SimulatorException\<close>.
\<close>

datatype error =
    SimulatorException string
  | InvalidCommandException string
  | InvalidStateException string

fun message :: "error \<Rightarrow> string" where
  "message (SimulatorException m) = m"
| "message (InvalidCommandException command) = ''Invalid command: '' @ command"
| "message (InvalidStateException m) = m"

subsection \<open>Numbers in template strings\<close>

text \<open>
  \<^verbatim>\<open>`${n}`\<close> for an integer \<open>n\<close> is its decimal representation, with a minus sign when
  \<open>n\<close> is negative.  This is what JavaScript prints for the integers a \<^verbatim>\<open>number\<close> holds
  exactly, of magnitude up to \<open>2 ^ 53\<close>; beyond that a \<^verbatim>\<open>number\<close> rounds, and from \<open>10 ^ 21\<close>
  on it prints in exponent form, which \<open>numberToString\<close> does not follow.  The stage
  counter stays within 0 to 3 and the seconds come from \<^verbatim>\<open>parseInt\<close> on a command line;
  only the text of messages depends on this function.
\<close>

definition digit :: "nat \<Rightarrow> char" where
  "digit d = ''0123456789'' ! d"

fun digits :: "nat \<Rightarrow> string" where
  "digits n = (if n < 10 then [digit n] else digits (n div 10) @ [digit (n mod 10)])"

declare digits.simps [simp del]

definition numberToString :: "int \<Rightarrow> string" where
  "numberToString n = (if n < 0 then CHR ''-'' # digits (nat (- n)) else digits (nat n))"

subsection \<open>stages.ts\<close>

text \<open>
  \<^verbatim>\<open>IStageStrategy\<close> has two implementations and neither has a field, so a strategy object
  is the tag of its class and each method is a function of the tag.
\<close>

datatype IStageStrategy = Stage1Strategy | Stage2Strategy

fun getFuelConsumptionRate :: "IStageStrategy \<Rightarrow> real" where
  "getFuelConsumptionRate Stage1Strategy = 1.0"
| "getFuelConsumptionRate Stage2Strategy = 0.5"

fun getAltitudeIncrement :: "IStageStrategy \<Rightarrow> real" where
  "getAltitudeIncrement Stage1Strategy = 10"
| "getAltitudeIncrement Stage2Strategy = 15"

fun getSpeedIncrement :: "IStageStrategy \<Rightarrow> real" where
  "getSpeedIncrement Stage1Strategy = 1000"
| "getSpeedIncrement Stage2Strategy = 800"

fun getStageName :: "IStageStrategy \<Rightarrow> string" where
  "getStageName Stage1Strategy = ''1''"
| "getStageName Stage2Strategy = ''2''"

fun shouldSeparate :: "IStageStrategy \<Rightarrow> real \<Rightarrow> bool" where
  "shouldSeparate Stage1Strategy fuel = (fuel \<le> 30)"
| "shouldSeparate Stage2Strategy fuel = False"

definition createStage :: "int \<Rightarrow> error + IStageStrategy" where
  "createStage stageNumber =
     (if stageNumber = 1 then Inr Stage1Strategy
      else if stageNumber = 2 then Inr Stage2Strategy
      else Inl (SimulatorException (''Unknown stage: '' @ numberToString stageNumber)))"

subsection \<open>rocketSystem.ts\<close>

record RocketState =
  stage :: int
  fuel :: real
  altitude :: real
  speed :: real
  status :: MissionStatus

text \<open>The constructor's default arguments.\<close>

definition new_RocketState :: RocketState where
  "new_RocketState =
     \<lparr>stage = 0, fuel = 100, altitude = 0, speed = 0, status = PRE_LAUNCH\<rparr>"

text \<open>
  The fields of \<^verbatim>\<open>RocketSystem\<close> that hold data: the state and the current strategy,
  \<open>None\<close> for \<^verbatim>\<open>null\<close>.
\<close>

record RocketSystem =
  state :: RocketState
  currentStageStrategy :: "IStageStrategy option"

definition ORBIT_ALTITUDE :: real where
  "ORBIT_ALTITUDE = 160"

definition MIN_FUEL_FOR_ORBIT :: real where
  "MIN_FUEL_FOR_ORBIT = 5"

definition new_RocketSystem :: RocketSystem where
  "new_RocketSystem = \<lparr>state = new_RocketState, currentStageStrategy = None\<rparr>"

definition getState :: "RocketSystem \<Rightarrow> RocketState" where
  "getState s = state s"

definition performPreLaunchChecks :: "RocketSystem \<Rightarrow> error option \<times> RocketSystem" where
  "performPreLaunchChecks s =
     (let s1 = s\<lparr>state := (state s)\<lparr>status := CHECKS_IN_PROGRESS\<rparr>\<rparr>;
          \<comment> \<open>the five system checks only log, whatever \<^verbatim>\<open>Math.random\<close> returns\<close>
          s2 = s1\<lparr>state := (state s1)\<lparr>status := READY_TO_LAUNCH\<rparr>\<rparr>
      in (None, s2))"

definition launch :: "RocketSystem \<Rightarrow> error option \<times> RocketSystem" where
  "launch s =
     (if status (state s) \<noteq> READY_TO_LAUNCH then
        (Some (InvalidStateException ''Cannot launch: Pre-launch checks not completed''), s)
      else
        let s1 = s\<lparr>state := (state s)\<lparr>stage := 1\<rparr>\<rparr>;
            s2 = s1\<lparr>state := (state s1)\<lparr>status := IN_FLIGHT\<rparr>\<rparr>
        in (case createStage 1 of
              Inl e \<Rightarrow> (Some e, s2)
            | Inr strategy \<Rightarrow> (None, s2\<lparr>currentStageStrategy := Some strategy\<rparr>)))"

definition separateStage :: "RocketSystem \<Rightarrow> error option \<times> RocketSystem" where
  "separateStage s =
     (let s1 = s\<lparr>state := (state s)\<lparr>stage := stage (state s) + 1\<rparr>\<rparr>
      in (case createStage (stage (state s1)) of
            Inl e \<Rightarrow> (Some e, s1)
          | Inr strategy \<Rightarrow> (None, s1\<lparr>currentStageStrategy := Some strategy\<rparr>)))"

definition achieveOrbit :: "RocketSystem \<Rightarrow> RocketSystem" where
  "achieveOrbit s = s\<lparr>state := (state s)\<lparr>status := ORBIT_ACHIEVED\<rparr>\<rparr>"

definition missionFailed :: "string \<Rightarrow> RocketSystem \<Rightarrow> RocketSystem" where
  "missionFailed reason s = s\<lparr>state := (state s)\<lparr>status := MISSION_FAILED\<rparr>\<rparr>"

text \<open>
  One second of flight.  The result is the boolean the method returns (\<open>Inr\<close>), or the
  exception that escapes from \<open>separateStage\<close> (\<open>Inl\<close>), with the rocket as it is left.
\<close>

definition updateFlightParameters :: "RocketSystem \<Rightarrow> (error + bool) \<times> RocketSystem" where
  "updateFlightParameters s =
     (case currentStageStrategy s of
        None \<Rightarrow> (Inr False, s)
      | Some strategy \<Rightarrow>
          let s1 = s\<lparr>state := (state s)\<lparr>fuel := fuel (state s) - getFuelConsumptionRate strategy\<rparr>\<rparr>
          in if fuel (state s1) \<le> 0 then
               (Inr False, missionFailed ''Insufficient fuel'' (s1\<lparr>state := (state s1)\<lparr>fuel := 0\<rparr>\<rparr>))
             else
               let s2 = s1\<lparr>state := (state s1)
                          \<lparr>altitude := altitude (state s1) + getAltitudeIncrement strategy\<rparr>\<rparr>;
                   s3 = s2\<lparr>state := (state s2)
                          \<lparr>speed := speed (state s2) + getSpeedIncrement strategy\<rparr>\<rparr>
               in if altitude (state s3) \<ge> ORBIT_ALTITUDE \<and> fuel (state s3) \<ge> MIN_FUEL_FOR_ORBIT then
                    (Inr False, achieveOrbit s3)
                  else if shouldSeparate strategy (fuel (state s3)) then
                    (case separateStage s3 of
                       (Some e, s4) \<Rightarrow> (Inl e, s4)
                     | (None, s4) \<Rightarrow> (Inr True, s4))
                  else (Inr True, s3))"

text \<open>
  The loop of \<open>advanceTime\<close>, \<^verbatim>\<open>for (let i = 0; i < seconds; i++)\<close>, from counter \<open>i\<close>: it
  stops when the step returns false and is left by an exception of the step.
\<close>

function forLoop :: "int \<Rightarrow> int \<Rightarrow> RocketSystem \<Rightarrow> error option \<times> RocketSystem" where
  "forLoop i seconds s =
     (if i < seconds then
        (case updateFlightParameters s of
           (Inl e, s') \<Rightarrow> (Some e, s')
         | (Inr continue, s') \<Rightarrow> if \<not> continue then (None, s') else forLoop (i + 1) seconds s')
      else (None, s))"
  by pat_completeness auto
termination
  by (relation "measure (\<lambda>(i, seconds, s). nat (seconds - i))") auto

declare forLoop.simps [simp del]

definition advanceTime :: "int \<Rightarrow> RocketSystem \<Rightarrow> error option \<times> RocketSystem" where
  "advanceTime seconds s =
     (if status (state s) \<noteq> IN_FLIGHT then
        (Some (InvalidStateException ''Rocket is not in flight''), s)
      else forLoop 0 seconds s)"

subsection \<open>commands.ts\<close>

text \<open>
  \<^verbatim>\<open>ICommand\<close> is an interface, so a command is the record of its three methods.  Each
  command object of the program holds a reference to the one \<^verbatim>\<open>RocketSystem\<close>; its
  methods are functions of that object.  \<open>canExecute\<close> and \<open>getDescription\<close> only read, as
  the three classes of the program do (\<^verbatim>\<open>getState\<close> returns a copy).
\<close>

record ICommand =
  execute :: "RocketSystem \<Rightarrow> error option \<times> RocketSystem"
  canExecute :: "RocketSystem \<Rightarrow> bool"
  getDescription :: string

definition StartChecksCommand :: ICommand where
  "StartChecksCommand =
     \<lparr>execute = performPreLaunchChecks,
      canExecute = (\<lambda>rocketSystem. status (getState rocketSystem) = PRE_LAUNCH),
      getDescription = ''Start pre-launch system checks''\<rparr>"

definition LaunchCommand :: ICommand where
  "LaunchCommand =
     \<lparr>execute = launch,
      canExecute = (\<lambda>rocketSystem. status (getState rocketSystem) = READY_TO_LAUNCH),
      getDescription = ''Launch the rocket''\<rparr>"

definition FastForwardCommand :: "int \<Rightarrow> ICommand" where
  "FastForwardCommand seconds =
     \<lparr>execute = advanceTime seconds,
      canExecute = (\<lambda>rocketSystem. status (getState rocketSystem) = IN_FLIGHT \<and> seconds > 0),
      getDescription = ''Fast forward '' @ numberToString seconds @ '' seconds''\<rparr>"

text \<open>
  Arrays are objects with identity: \<^verbatim>\<open>getHistory\<close> hands out an array and the caller
  may write to it.  A store maps references to array contents and allocates the next free
  reference; \<^verbatim>\<open>[...xs]\<close> and \<^verbatim>\<open>[]\<close> allocate, \<^verbatim>\<open>push\<close> writes in place.
\<close>

type_synonym ref = nat

record 'a store =
  cells :: "ref \<Rightarrow> 'a list"
  fresh :: ref

definition newArray :: "'a list \<Rightarrow> 'a store \<Rightarrow> ref \<times> 'a store" where
  "newArray xs h = (fresh h, h\<lparr>cells := (cells h)(fresh h := xs), fresh := fresh h + 1\<rparr>)"

definition push :: "ref \<Rightarrow> 'a \<Rightarrow> 'a store \<Rightarrow> 'a store" where
  "push a x h = h\<lparr>cells := (cells h)(a := cells h a @ [x])\<rparr>"

record CommandInvoker =
  commandHistory :: ref

text \<open>
  What a command execution can touch: the rocket the commands refer to, and the arrays.
\<close>

record world =
  rocketSystem :: RocketSystem
  heap :: "ICommand store"

definition new_CommandInvoker :: "ICommand store \<Rightarrow> CommandInvoker \<times> ICommand store" where
  "new_CommandInvoker h = (case newArray [] h of (a, h') \<Rightarrow> (\<lparr>commandHistory = a\<rparr>, h'))"

definition executeCommand :: "CommandInvoker \<Rightarrow> ICommand \<Rightarrow> world \<Rightarrow> error option \<times> world" where
  "executeCommand this command w =
     (if \<not> canExecute command (rocketSystem w) then
        (Some (InvalidStateException (''Cannot execute command: '' @ getDescription command)), w)
      else
        (case execute command (rocketSystem w) of
           (Some e, r) \<Rightarrow> (Some e, w\<lparr>rocketSystem := r\<rparr>)
         | (None, r) \<Rightarrow>
             (None, w\<lparr>rocketSystem := r, heap := push (commandHistory this) command (heap w)\<rparr>)))"

definition getHistory :: "CommandInvoker \<Rightarrow> ICommand store \<Rightarrow> ref \<times> ICommand store" where
  "getHistory this h = newArray (cells h (commandHistory this)) h"

section \<open>Reachable states and invariants\<close>

text \<open>
  The states a \<^verbatim>\<open>RocketSystem\<close> object can be in: the constructed one, and every state a
  public method leaves, whether it returns or throws (a caller can catch the exception and
  go on, as the command line does).
\<close>

inductive reachable :: "RocketSystem \<Rightarrow> bool" where
  constructed: "reachable new_RocketSystem"
| checked: "reachable s \<Longrightarrow> reachable (snd (performPreLaunchChecks s))"
| launched: "reachable s \<Longrightarrow> reachable (snd (launch s))"
| advanced: "reachable s \<Longrightarrow> reachable (snd (advanceTime seconds s))"

text \<open>
  The stage counter follows the strategy object, and the fuel stays a percentage.
\<close>

definition consistent :: "RocketSystem \<Rightarrow> bool" where
  "consistent s =
     (0 \<le> fuel (state s) \<and> fuel (state s) \<le> 100 \<and>
      (case currentStageStrategy s of
         None \<Rightarrow> stage (state s) = 0 \<and> status (state s) \<in> {PRE_LAUNCH, READY_TO_LAUNCH}
       | Some Stage1Strategy \<Rightarrow> stage (state s) = 1
       | Some Stage2Strategy \<Rightarrow> stage (state s) = 2))"

text \<open>
  The quantities stay multiples of one half and bounded: each second that raises the
  altitude or the speed burns fuel, at least one unit per 30 km and per 1600 km/h.
\<close>

definition exact :: "RocketSystem \<Rightarrow> bool" where
  "exact s =
     (2 * fuel (state s) \<in> \<int> \<and> altitude (state s) \<in> \<int> \<and> speed (state s) \<in> \<int> \<and>
      0 \<le> fuel (state s) \<and> fuel (state s) \<le> 100 \<and>
      0 \<le> altitude (state s) \<and> altitude (state s) \<le> 30 * (100 - fuel (state s)) \<and>
      0 \<le> speed (state s) \<and> speed (state s) \<le> 1600 * (100 - fuel (state s)))"

section \<open>The scenario of the specification\<close>

definition checked_rocket :: RocketSystem where
  "checked_rocket = snd (performPreLaunchChecks new_RocketSystem)"

definition launched_rocket :: RocketSystem where
  "launched_rocket = snd (launch checked_rocket)"

definition cruising_rocket :: RocketSystem where
  "cruising_rocket = snd (advanceTime 10 launched_rocket)"

definition orbiting_rocket :: RocketSystem where
  "orbiting_rocket = snd (advanceTime 60 cruising_rocket)"

text \<open>
  Calling the checks again after orbit and launching again: each round flies one more
  second and reaches orbit again with one unit of fuel less, until the fuel is too low for
  orbit and the first stage separates.
\<close>

fun relaunched :: "nat \<Rightarrow> RocketSystem" where
  "relaunched 0 = orbiting_rocket"
| "relaunched (Suc k) =
     snd (advanceTime 1 (snd (launch (snd (performPreLaunchChecks (relaunched k))))))"

definition low_fuel_rocket :: RocketSystem where
  "low_fuel_rocket = snd (launch (snd (performPreLaunchChecks (relaunched 79))))"

definition nearly_empty_rocket :: RocketSystem where
  "nearly_empty_rocket = snd (advanceTime 8 low_fuel_rocket)"

definition failed_rocket :: RocketSystem where
  "failed_rocket = snd (advanceTime 1 nearly_empty_rocket)"

section \<open>A command session\<close>

text \<open>
  An invoker constructed on the empty store, the world it starts in, and the worlds after
  the start-checks command and after the launch command.  \<open>UncheckedLaunchCommand\<close> is
  not a class of the program: it is a fourth implementation of the interface, whose guard
  always passes, so that its \<open>execute\<close> can throw after the guard.  (On reachable rockets
  the three commands of the program never throw once their guard has passed.)
\<close>

definition empty_store :: "ICommand store" where
  "empty_store = \<lparr>cells = (\<lambda>a. []), fresh = 0\<rparr>"

definition first_invoker :: CommandInvoker where
  "first_invoker = fst (new_CommandInvoker empty_store)"

definition first_world :: world where
  "first_world =
     \<lparr>rocketSystem = new_RocketSystem, heap = snd (new_CommandInvoker empty_store)\<rparr>"

definition UncheckedLaunchCommand :: ICommand where
  "UncheckedLaunchCommand =
     \<lparr>execute = launch,
      canExecute = (\<lambda>rocketSystem. True),
      getDescription = ''Launch without checks''\<rparr>"

definition second_world :: world where
  "second_world = snd (executeCommand first_invoker StartChecksCommand first_world)"

definition third_world :: world where
  "third_world = snd (executeCommand first_invoker LaunchCommand second_world)"

section \<open>Properties of the flight loop\<close>

lemmas step_defs = updateFlightParameters_def separateStage_def achieveOrbit_def
  missionFailed_def createStage_def ORBIT_ALTITUDE_def MIN_FUEL_FOR_ORBIT_def

lemma consistent_step:
  assumes "consistent s"
  shows "consistent (snd (updateFlightParameters s))"
    and "\<exists>continue. fst (updateFlightParameters s) = Inr continue"
  using assms
  by (auto simp: consistent_def step_defs Let_def
      split: option.splits IStageStrategy.splits)

lemma consistent_forLoop:
  "consistent s \<Longrightarrow> consistent (snd (forLoop i seconds s)) \<and> fst (forLoop i seconds s) = None"
proof (induction i seconds s rule: forLoop.induct)
  case (1 i seconds s)
  obtain r s' where step: "updateFlightParameters s = (r, s')"
    by (cases "updateFlightParameters s")
  from consistent_step [OF "1.prems"] step obtain continue where
    r: "r = Inr continue" and s': "consistent s'"
    by auto
  show ?case
  proof (cases "i < seconds \<and> continue")
    case True
    with "1.IH" step r s' show ?thesis
      by (simp add: forLoop.simps [of i seconds s])
  next
    case False
    with step r s' "1.prems" show ?thesis
      by (auto simp: forLoop.simps [of i seconds s])
  qed
qed

lemma consistent_ops:
  assumes "consistent s"
  shows "consistent (snd (performPreLaunchChecks s))"
    and "consistent (snd (launch s))"
    and "consistent (snd (advanceTime seconds s))"
  using assms consistent_forLoop [of s 0 seconds]
  by (auto simp: consistent_def performPreLaunchChecks_def launch_def createStage_def
      advanceTime_def split: option.splits IStageStrategy.splits)

lemma reachable_consistent: "reachable s \<Longrightarrow> consistent s"
proof (induction rule: reachable.induct)
  case constructed
  show ?case
    by (simp add: consistent_def new_RocketSystem_def new_RocketState_def)
qed (simp_all add: consistent_ops)


lemma forLoop_rel:
  assumes refl: "\<And>s. R s s"
    and trans: "\<And>a b c. R a b \<Longrightarrow> R b c \<Longrightarrow> R a c"
    and step: "\<And>s. R s (snd (updateFlightParameters s))"
  shows "R s (snd (forLoop i seconds s))"
proof (induction i seconds s rule: forLoop.induct)
  case (1 i seconds s)
  obtain r s' where st: "updateFlightParameters s = (r, s')"
    by (cases "updateFlightParameters s")
  have first: "R s s'"
    using step [of s] st by simp
  show ?case
  proof (cases "i < seconds \<and> r = Inr True")
    case True
    with "1.IH" st have "R s' (snd (forLoop (i + 1) seconds s'))"
      by simp
    with first have "R s (snd (forLoop (i + 1) seconds s'))"
      by (rule trans)
    with True st show ?thesis
      by (simp add: forLoop.simps [of i seconds s])
  next
    case False
    with st first refl [of s] show ?thesis
      by (cases r) (auto simp: forLoop.simps [of i seconds s])
  qed
qed

lemma forLoop_one:
  "snd (forLoop 0 1 s) = snd (updateFlightParameters s)"
  by (simp add: forLoop.simps [of 0 1 s] forLoop.simps [of 1 1] split: prod.splits sum.splits)

lemma step_fuel:
  "0 \<le> fuel (state s) \<Longrightarrow>
     0 \<le> fuel (state (snd (updateFlightParameters s))) \<and>
     fuel (state (snd (updateFlightParameters s))) \<le> fuel (state s)"
  by (cases "currentStageStrategy s"; cases "the (currentStageStrategy s)")
     (auto simp: step_defs Let_def)


lemma forLoop_fuel:
  "0 \<le> fuel (state s) \<longrightarrow>
     0 \<le> fuel (state (snd (forLoop i seconds s))) \<and>
     fuel (state (snd (forLoop i seconds s))) \<le> fuel (state s)"
proof (rule forLoop_rel [where R = "\<lambda>a b. 0 \<le> fuel (state a) \<longrightarrow>
        0 \<le> fuel (state b) \<and> fuel (state b) \<le> fuel (state a)"])
  show "0 \<le> fuel (state s) \<longrightarrow> 0 \<le> fuel (state s) \<and> fuel (state s) \<le> fuel (state s)" for s
    by simp
  show "0 \<le> fuel (state a) \<longrightarrow> 0 \<le> fuel (state c) \<and> fuel (state c) \<le> fuel (state a)"
    if "0 \<le> fuel (state a) \<longrightarrow> 0 \<le> fuel (state b) \<and> fuel (state b) \<le> fuel (state a)"
      and "0 \<le> fuel (state b) \<longrightarrow> 0 \<le> fuel (state c) \<and> fuel (state c) \<le> fuel (state b)"
    for a b c
    using that by linarith
  show "0 \<le> fuel (state s) \<longrightarrow>
     0 \<le> fuel (state (snd (updateFlightParameters s))) \<and>
     fuel (state (snd (updateFlightParameters s))) \<le> fuel (state s)" for s
    using step_fuel [of s] by blast
qed

lemma step_altitude_speed:
  "altitude (state s) \<le> altitude (state (snd (updateFlightParameters s))) \<and>
   speed (state s) \<le> speed (state (snd (updateFlightParameters s)))"
  by (cases "currentStageStrategy s"; cases "the (currentStageStrategy s)")
     (auto simp: step_defs Let_def)

lemma forLoop_altitude_speed:
  "altitude (state s) \<le> altitude (state (snd (forLoop i seconds s))) \<and>
   speed (state s) \<le> speed (state (snd (forLoop i seconds s)))"
proof (rule forLoop_rel [where R = "\<lambda>a b. altitude (state a) \<le> altitude (state b) \<and>
        speed (state a) \<le> speed (state b)"])
  show "altitude (state a) \<le> altitude (state c) \<and> speed (state a) \<le> speed (state c)"
    if "altitude (state a) \<le> altitude (state b) \<and> speed (state a) \<le> speed (state b)"
      and "altitude (state b) \<le> altitude (state c) \<and> speed (state b) \<le> speed (state c)"
    for a b c
    using that by linarith
qed (simp_all add: step_altitude_speed)



lemma half_step: "2 * f \<in> \<int> \<Longrightarrow> 2 * (f - 1 / 2) \<in> \<int>" for f :: real
  by (simp add: algebra_simps)

lemma whole_step: "2 * f \<in> \<int> \<Longrightarrow> 2 * (f - 1) \<in> \<int>" for f :: real
  by (simp add: algebra_simps)

lemma exact_step:
  assumes "exact s"
  shows "exact (snd (updateFlightParameters s))"
proof (cases "currentStageStrategy s")
  case None
  with assms show ?thesis
    by (simp add: updateFlightParameters_def)
next
  case (Some strategy)
  show ?thesis
  proof (cases strategy)
    case Stage1Strategy
    with Some assms whole_step [of "fuel (state s)"] show ?thesis
      by (simp add: exact_def step_defs Let_def)
  next
    case Stage2Strategy
    with Some assms half_step [of "fuel (state s)"] show ?thesis
      by (simp add: exact_def step_defs Let_def)
  qed
qed

lemma exact_forLoop: "exact s \<longrightarrow> exact (snd (forLoop i seconds s))"
  by (rule forLoop_rel [where R = "\<lambda>a b. exact a \<longrightarrow> exact b"])
     (simp_all add: exact_step)

lemma reachable_exact: "reachable s \<Longrightarrow> exact s"
proof (induction rule: reachable.induct)
  case constructed
  show ?case
    by (simp add: exact_def new_RocketSystem_def new_RocketState_def)
next
  case (checked s)
  then show ?case
    by (simp add: exact_def performPreLaunchChecks_def)
next
  case (launched s)
  then show ?case
    by (simp add: exact_def launch_def createStage_def)
next
  case (advanced s seconds)
  with exact_forLoop [of s 0 seconds] show ?case
    by (simp add: advanceTime_def)
qed


section \<open>The scenario, evaluated\<close>

text \<open>One second of a stage 1 flight, on explicit fields.\<close>

lemma stage1_second:
  "updateFlightParameters
     \<lparr>state = \<lparr>stage = 1, fuel = f, altitude = a, speed = v, status = IN_FLIGHT\<rparr>,
      currentStageStrategy = Some Stage1Strategy\<rparr> =
   (if f - 1 \<le> 0 then
      (Inr False,
       \<lparr>state = \<lparr>stage = 1, fuel = 0, altitude = a, speed = v, status = MISSION_FAILED\<rparr>,
        currentStageStrategy = Some Stage1Strategy\<rparr>)
    else if 160 \<le> a + 10 \<and> 5 \<le> f - 1 then
      (Inr False,
       \<lparr>state = \<lparr>stage = 1, fuel = f - 1, altitude = a + 10, speed = v + 1000,
                 status = ORBIT_ACHIEVED\<rparr>,
        currentStageStrategy = Some Stage1Strategy\<rparr>)
    else if f - 1 \<le> 30 then
      (Inr True,
       \<lparr>state = \<lparr>stage = 2, fuel = f - 1, altitude = a + 10, speed = v + 1000,
                 status = IN_FLIGHT\<rparr>,
        currentStageStrategy = Some Stage2Strategy\<rparr>)
    else
      (Inr True,
       \<lparr>state = \<lparr>stage = 1, fuel = f - 1, altitude = a + 10, speed = v + 1000,
                 status = IN_FLIGHT\<rparr>,
        currentStageStrategy = Some Stage1Strategy\<rparr>))"
  by (simp add: step_defs Let_def)

lemma checked_rocket_eq:
  "checked_rocket =
     \<lparr>state = \<lparr>stage = 0, fuel = 100, altitude = 0, speed = 0, status = READY_TO_LAUNCH\<rparr>,
      currentStageStrategy = None\<rparr>"
  by (simp add: checked_rocket_def performPreLaunchChecks_def new_RocketSystem_def
      new_RocketState_def)

lemma launched_rocket_eq:
  "launched_rocket =
     \<lparr>state = \<lparr>stage = 1, fuel = 100, altitude = 0, speed = 0, status = IN_FLIGHT\<rparr>,
      currentStageStrategy = Some Stage1Strategy\<rparr>"
  by (simp add: launched_rocket_def checked_rocket_eq launch_def createStage_def)

lemma advance_launched_rocket:
  "advanceTime 10 launched_rocket =
     (None,
      \<lparr>state = \<lparr>stage = 1, fuel = 90, altitude = 100, speed = 10000, status = IN_FLIGHT\<rparr>,
       currentStageStrategy = Some Stage1Strategy\<rparr>)"
  by (simp add: launched_rocket_eq advanceTime_def forLoop.simps stage1_second)

lemma cruising_rocket_eq:
  "cruising_rocket =
     \<lparr>state = \<lparr>stage = 1, fuel = 90, altitude = 100, speed = 10000, status = IN_FLIGHT\<rparr>,
      currentStageStrategy = Some Stage1Strategy\<rparr>"
  by (simp add: cruising_rocket_def advance_launched_rocket)

lemma advance_cruising_rocket:
  "advanceTime 5 cruising_rocket =
     (None,
      \<lparr>state = \<lparr>stage = 1, fuel = 85, altitude = 150, speed = 15000, status = IN_FLIGHT\<rparr>,
       currentStageStrategy = Some Stage1Strategy\<rparr>)"
  "advanceTime 6 cruising_rocket =
     (None,
      \<lparr>state = \<lparr>stage = 1, fuel = 84, altitude = 160, speed = 16000, status = ORBIT_ACHIEVED\<rparr>,
       currentStageStrategy = Some Stage1Strategy\<rparr>)"
  "advanceTime 60 cruising_rocket =
     (None,
      \<lparr>state = \<lparr>stage = 1, fuel = 84, altitude = 160, speed = 16000, status = ORBIT_ACHIEVED\<rparr>,
       currentStageStrategy = Some Stage1Strategy\<rparr>)"
  by (simp_all add: cruising_rocket_eq advanceTime_def forLoop.simps stage1_second)

lemma orbiting_rocket_eq:
  "orbiting_rocket =
     \<lparr>state = \<lparr>stage = 1, fuel = 84, altitude = 160, speed = 16000, status = ORBIT_ACHIEVED\<rparr>,
      currentStageStrategy = Some Stage1Strategy\<rparr>"
  by (simp add: orbiting_rocket_def advance_cruising_rocket)

lemma reachable_scenario:
  "reachable checked_rocket" "reachable launched_rocket"
  "reachable cruising_rocket" "reachable orbiting_rocket"
  unfolding checked_rocket_def launched_rocket_def cruising_rocket_def orbiting_rocket_def
  by (intro reachable.intros)+

lemma stage2_second:
  "updateFlightParameters
     \<lparr>state = \<lparr>stage = 2, fuel = f, altitude = a, speed = v, status = IN_FLIGHT\<rparr>,
      currentStageStrategy = Some Stage2Strategy\<rparr> =
   (if f - 1 / 2 \<le> 0 then
      (Inr False,
       \<lparr>state = \<lparr>stage = 2, fuel = 0, altitude = a, speed = v, status = MISSION_FAILED\<rparr>,
        currentStageStrategy = Some Stage2Strategy\<rparr>)
    else if 160 \<le> a + 15 \<and> 5 \<le> f - 1 / 2 then
      (Inr False,
       \<lparr>state = \<lparr>stage = 2, fuel = f - 1 / 2, altitude = a + 15, speed = v + 800,
                 status = ORBIT_ACHIEVED\<rparr>,
        currentStageStrategy = Some Stage2Strategy\<rparr>)
    else
      (Inr True,
       \<lparr>state = \<lparr>stage = 2, fuel = f - 1 / 2, altitude = a + 15, speed = v + 800,
                 status = IN_FLIGHT\<rparr>,
        currentStageStrategy = Some Stage2Strategy\<rparr>))"
  by (simp add: step_defs Let_def)

lemma reachable_relaunched: "reachable (relaunched k)"
  by (induction k) (simp_all add: reachable_scenario reachable.intros)

lemma relaunched_eq:
  "k \<le> 79 \<Longrightarrow>
   relaunched k =
     \<lparr>state = \<lparr>stage = 1, fuel = 84 - real k, altitude = 160 + 10 * real k,
               speed = 16000 + 1000 * real k, status = ORBIT_ACHIEVED\<rparr>,
      currentStageStrategy = Some Stage1Strategy\<rparr>"
proof (induction k)
  case 0
  show ?case
    by (simp add: orbiting_rocket_eq)
next
  case (Suc k)
  then have "relaunched k =
     \<lparr>state = \<lparr>stage = 1, fuel = 84 - real k, altitude = 160 + 10 * real k,
               speed = 16000 + 1000 * real k, status = ORBIT_ACHIEVED\<rparr>,
      currentStageStrategy = Some Stage1Strategy\<rparr>" and "real k \<le> 78"
    by simp_all
  then show ?case
    by (simp add: performPreLaunchChecks_def launch_def createStage_def advanceTime_def
        forLoop.simps [of 0 1] stage1_second algebra_simps)
qed

lemma low_fuel_rocket_eq:
  "low_fuel_rocket =
     \<lparr>state = \<lparr>stage = 1, fuel = 5, altitude = 950, speed = 95000, status = IN_FLIGHT\<rparr>,
      currentStageStrategy = Some Stage1Strategy\<rparr>"
  by (simp add: low_fuel_rocket_def relaunched_eq performPreLaunchChecks_def launch_def
      createStage_def)

lemma reachable_low_fuel_rocket: "reachable low_fuel_rocket"
  unfolding low_fuel_rocket_def by (intro reachable.intros reachable_relaunched)

lemma nearly_empty_rocket_eq:
  "nearly_empty_rocket =
     \<lparr>state = \<lparr>stage = 2, fuel = 1 / 2, altitude = 1065, speed = 101600, status = IN_FLIGHT\<rparr>,
      currentStageStrategy = Some Stage2Strategy\<rparr>"
  by (simp add: nearly_empty_rocket_def low_fuel_rocket_eq advanceTime_def forLoop.simps
      stage1_second stage2_second)

lemma reachable_nearly_empty_rocket: "reachable nearly_empty_rocket"
  unfolding nearly_empty_rocket_def by (intro reachable.intros reachable_low_fuel_rocket)

lemma failed_rocket_eq:
  "failed_rocket =
     \<lparr>state = \<lparr>stage = 2, fuel = 0, altitude = 1065, speed = 101600,
               status = MISSION_FAILED\<rparr>,
      currentStageStrategy = Some Stage2Strategy\<rparr>"
  by (simp add: failed_rocket_def nearly_empty_rocket_eq advanceTime_def forLoop.simps
      stage2_second)

lemma reachable_failed_rocket: "reachable failed_rocket"
  unfolding failed_rocket_def by (intro reachable.intros reachable_nearly_empty_rocket)

section \<open>Single seconds of reachable flights\<close>

lemma reachable_second:
  assumes "reachable s" and "status (state s) = IN_FLIGHT"
  shows "reachable (snd (updateFlightParameters s))"
proof -
  have "snd (advanceTime 1 s) = snd (updateFlightParameters s)"
    using assms(2) by (simp add: advanceTime_def forLoop_one)
  with reachable.advanced [OF assms(1), of 1] show ?thesis
    by simp
qed

lemma in_flight_strategy:
  assumes "reachable s" and "status (state s) = IN_FLIGHT"
  shows "\<exists>strategy. currentStageStrategy s = Some strategy"
  using reachable_consistent [OF assms(1)] assms(2)
  by (cases "currentStageStrategy s") (simp_all add: consistent_def)

lemma step_fuel_exact:
  assumes "currentStageStrategy s = Some strategy"
  shows "if fuel (state s) - getFuelConsumptionRate strategy \<le> 0
         then fuel (state (snd (updateFlightParameters s))) = 0 \<and>
              status (state (snd (updateFlightParameters s))) = MISSION_FAILED \<and>
              fst (updateFlightParameters s) = Inr False
         else fuel (state (snd (updateFlightParameters s))) =
              fuel (state s) - getFuelConsumptionRate strategy"
  using assms by (cases strategy) (simp_all add: step_defs Let_def)

lemma step_increments:
  assumes "fst (updateFlightParameters s) = Inr True"
  shows "\<exists>strategy. currentStageStrategy s = Some strategy \<and>
           0 < fuel (state s) - getFuelConsumptionRate strategy \<and>
           altitude (state (snd (updateFlightParameters s))) =
             altitude (state s) + getAltitudeIncrement strategy \<and>
           speed (state (snd (updateFlightParameters s))) =
             speed (state s) + getSpeedIncrement strategy"
proof (cases "currentStageStrategy s")
  case None
  with assms show ?thesis
    by (simp add: updateFlightParameters_def)
next
  case (Some strategy)
  with assms show ?thesis
    by (cases strategy) (simp_all add: step_defs Let_def split: if_splits)
qed

lemma step_exhausted:
  assumes "currentStageStrategy s = Some strategy"
    and "fuel (state s) - getFuelConsumptionRate strategy \<le> 0"
  shows "updateFlightParameters s =
           (Inr False, s\<lparr>state := (state s)\<lparr>fuel := 0, status := MISSION_FAILED\<rparr>\<rparr>)"
  using assms by (simp add: step_defs Let_def)

section \<open>The command session, evaluated\<close>

lemma first_invoker_eq:
  "first_invoker = \<lparr>commandHistory = 0\<rparr>"
  "heap first_world = \<lparr>cells = (\<lambda>a. []), fresh = 1\<rparr>"
  "rocketSystem first_world = new_RocketSystem"
  by (simp_all add: first_invoker_def first_world_def new_CommandInvoker_def newArray_def
      empty_store_def fun_eq_iff)

lemma command_guards:
  "\<not> canExecute LaunchCommand new_RocketSystem"
  "canExecute StartChecksCommand new_RocketSystem"
  "canExecute UncheckedLaunchCommand new_RocketSystem"
  "canExecute LaunchCommand checked_rocket"
  "getDescription LaunchCommand = ''Launch the rocket''"
  "execute StartChecksCommand new_RocketSystem = (None, checked_rocket)"
  "execute LaunchCommand checked_rocket = (None, launched_rocket)"
  "execute UncheckedLaunchCommand new_RocketSystem =
     (Some (InvalidStateException ''Cannot launch: Pre-launch checks not completed''),
      new_RocketSystem)"
  by (simp_all add: LaunchCommand_def StartChecksCommand_def UncheckedLaunchCommand_def
      getState_def checked_rocket_eq launched_rocket_eq launch_def createStage_def
      performPreLaunchChecks_def new_RocketSystem_def new_RocketState_def)

section \<open>Terminal states under the guards\<close>

text \<open>
  In a state with status \<open>ORBIT_ACHIEVED\<close> or \<open>MISSION_FAILED\<close>, \<open>launch\<close> and \<open>advanceTime\<close>
  throw and leave the rocket as it was, and each of the three commands of the program is
  refused by its guard.
\<close>

lemma terminal_status_kept:
  assumes "status (state s) = ORBIT_ACHIEVED \<or> status (state s) = MISSION_FAILED"
  shows "launch s =
           (Some (InvalidStateException ''Cannot launch: Pre-launch checks not completed''), s) \<and>
         advanceTime seconds s = (Some (InvalidStateException ''Rocket is not in flight''), s) \<and>
         (\<forall>command \<in> {StartChecksCommand, LaunchCommand, FastForwardCommand seconds}.
            \<not> canExecute command s \<and>
            executeCommand this command \<lparr>rocketSystem = s, heap = h\<rparr> =
              (Some (InvalidStateException
                 (''Cannot execute command: '' @ getDescription command)),
               \<lparr>rocketSystem = s, heap = h\<rparr>))"
  using assms
  by (auto simp: launch_def advanceTime_def executeCommand_def StartChecksCommand_def
      LaunchCommand_def FastForwardCommand_def getState_def)

lemma terminal_status_kept_session:
  "status (state orbiting_rocket) = ORBIT_ACHIEVED \<and>
   snd (launch orbiting_rocket) = orbiting_rocket \<and>
   snd (advanceTime 60 orbiting_rocket) = orbiting_rocket \<and>
   executeCommand first_invoker StartChecksCommand
       \<lparr>rocketSystem = orbiting_rocket, heap = heap first_world\<rparr> =
     (Some (InvalidStateException ''Cannot execute command: Start pre-launch system checks''),
      \<lparr>rocketSystem = orbiting_rocket, heap = heap first_world\<rparr>) \<and>
   executeCommand first_invoker (FastForwardCommand 60)
       \<lparr>rocketSystem = orbiting_rocket, heap = heap first_world\<rparr> =
     (Some (InvalidStateException ''Cannot execute command: Fast forward 60 seconds''),
      \<lparr>rocketSystem = orbiting_rocket, heap = heap first_world\<rparr>)"
proof -
  have a: "status (state orbiting_rocket) = ORBIT_ACHIEVED"
    by (simp add: orbiting_rocket_eq)
  then have "status (state orbiting_rocket) = ORBIT_ACHIEVED \<or>
      status (state orbiting_rocket) = MISSION_FAILED" ..
  note kept = terminal_status_kept [OF this, of 60 first_invoker "heap first_world"]
  have d: "getDescription StartChecksCommand = ''Start pre-launch system checks''"
    "getDescription (FastForwardCommand 60) = ''Fast forward 60 seconds''"
    by (simp_all add: StartChecksCommand_def FastForwardCommand_def numberToString_def
        digits.simps digit_def)
  from kept have "executeCommand first_invoker StartChecksCommand
       \<lparr>rocketSystem = orbiting_rocket, heap = heap first_world\<rparr> =
     (Some (InvalidStateException
        (''Cannot execute command: '' @ getDescription StartChecksCommand)),
      \<lparr>rocketSystem = orbiting_rocket, heap = heap first_world\<rparr>)"
    and "executeCommand first_invoker (FastForwardCommand 60)
       \<lparr>rocketSystem = orbiting_rocket, heap = heap first_world\<rparr> =
     (Some (InvalidStateException
        (''Cannot execute command: '' @ getDescription (FastForwardCommand 60))),
      \<lparr>rocketSystem = orbiting_rocket, heap = heap first_world\<rparr>)"
    by blast+
  with a kept show ?thesis
    unfolding d by simp
qed

section \<open>The claims\<close>

text \<open>
  Claim C1.  From a freshly constructed rocket, the pre-launch checks leave
  \<open>READY_TO_LAUNCH\<close>, the launch leaves stage 1 in flight, \<open>advanceTime(10)\<close> leaves fuel 90,
  altitude 100, speed 10000, stage 1, still in flight, and \<open>advanceTime(60)\<close> then halts
  with \<open>ORBIT_ACHIEVED\<close>, fuel 84, altitude 160, speed 16000 and stage 1: five of its
  seconds leave the rocket in flight at altitude 150, the sixth (the 16th in all) reaches
  orbit, and the other 54 are not run.  No stage separation happens on the way.
\<close>

theorem scenario_orbit_at_second_16:
  "status (state (snd (performPreLaunchChecks new_RocketSystem))) = READY_TO_LAUNCH \<and>
   launch (snd (performPreLaunchChecks new_RocketSystem)) =
     (None,
      \<lparr>state = \<lparr>stage = 1, fuel = 100, altitude = 0, speed = 0, status = IN_FLIGHT\<rparr>,
       currentStageStrategy = Some Stage1Strategy\<rparr>) \<and>
   advanceTime 10 launched_rocket =
     (None,
      \<lparr>state = \<lparr>stage = 1, fuel = 90, altitude = 100, speed = 10000, status = IN_FLIGHT\<rparr>,
       currentStageStrategy = Some Stage1Strategy\<rparr>) \<and>
   advanceTime 60 cruising_rocket =
     (None,
      \<lparr>state = \<lparr>stage = 1, fuel = 84, altitude = 160, speed = 16000, status = ORBIT_ACHIEVED\<rparr>,
       currentStageStrategy = Some Stage1Strategy\<rparr>) \<and>
   status (state (snd (advanceTime 5 cruising_rocket))) = IN_FLIGHT \<and>
   altitude (state (snd (advanceTime 5 cruising_rocket))) = 150 \<and>
   advanceTime 6 cruising_rocket = advanceTime 60 cruising_rocket"
proof (intro conjI)
  show "status (state (snd (performPreLaunchChecks new_RocketSystem))) = READY_TO_LAUNCH"
    by (simp add: performPreLaunchChecks_def)
  show "launch (snd (performPreLaunchChecks new_RocketSystem)) =
     (None,
      \<lparr>state = \<lparr>stage = 1, fuel = 100, altitude = 0, speed = 0, status = IN_FLIGHT\<rparr>,
       currentStageStrategy = Some Stage1Strategy\<rparr>)"
    by (simp add: performPreLaunchChecks_def new_RocketSystem_def new_RocketState_def
        launch_def createStage_def)
  show "advanceTime 10 launched_rocket =
     (None,
      \<lparr>state = \<lparr>stage = 1, fuel = 90, altitude = 100, speed = 10000, status = IN_FLIGHT\<rparr>,
       currentStageStrategy = Some Stage1Strategy\<rparr>)"
    by (rule advance_launched_rocket)
  show "advanceTime 60 cruising_rocket =
     (None,
      \<lparr>state = \<lparr>stage = 1, fuel = 84, altitude = 160, speed = 16000, status = ORBIT_ACHIEVED\<rparr>,
       currentStageStrategy = Some Stage1Strategy\<rparr>)"
    by (rule advance_cruising_rocket)
  show "status (state (snd (advanceTime 5 cruising_rocket))) = IN_FLIGHT"
    and "altitude (state (snd (advanceTime 5 cruising_rocket))) = 150"
    by (simp_all only: advance_cruising_rocket snd_conv RocketSystem.simps RocketState.simps)
  show "advanceTime 6 cruising_rocket = advanceTime 60 cruising_rocket"
    by (simp only: advance_cruising_rocket)
qed

text \<open>
  Claim C2: no public method of \<open>RocketSystem\<close> takes the status out of \<open>ORBIT_ACHIEVED\<close>
  or \<open>MISSION_FAILED\<close>.  The code breaks it: \<open>launch\<close> and \<open>advanceTime\<close> guard themselves
  (\<open>terminal_status_kept\<close>), and \<open>StartChecksCommand\<close> allows the checks from \<open>PRE_LAUNCH\<close>
  only, but \<open>performPreLaunchChecks\<close> itself has no status guard.  Called on the rocket
  that has reached orbit in the scenario, and on the rocket that has run out of fuel, it
  returns normally and leaves \<open>READY_TO_LAUNCH\<close>, from where \<open>launch\<close> puts the rocket in
  flight again.
\<close>

theorem checks_leave_terminal_states:
  "reachable orbiting_rocket \<and>
   status (state orbiting_rocket) = ORBIT_ACHIEVED \<and>
   performPreLaunchChecks orbiting_rocket =
     (None,
      \<lparr>state = \<lparr>stage = 1, fuel = 84, altitude = 160, speed = 16000,
                status = READY_TO_LAUNCH\<rparr>,
       currentStageStrategy = Some Stage1Strategy\<rparr>) \<and>
   status (state (snd (performPreLaunchChecks orbiting_rocket))) \<noteq>
     status (state orbiting_rocket) \<and>
   launch (snd (performPreLaunchChecks orbiting_rocket)) =
     (None,
      \<lparr>state = \<lparr>stage = 1, fuel = 84, altitude = 160, speed = 16000, status = IN_FLIGHT\<rparr>,
       currentStageStrategy = Some Stage1Strategy\<rparr>) \<and>
   reachable failed_rocket \<and>
   status (state failed_rocket) = MISSION_FAILED \<and>
   performPreLaunchChecks failed_rocket =
     (None,
      \<lparr>state = \<lparr>stage = 2, fuel = 0, altitude = 1065, speed = 101600,
                status = READY_TO_LAUNCH\<rparr>,
       currentStageStrategy = Some Stage2Strategy\<rparr>) \<and>
   status (state (snd (performPreLaunchChecks failed_rocket))) \<noteq>
     status (state failed_rocket)"
proof -
  have "reachable orbiting_rocket" and "reachable failed_rocket"
    by (rule reachable_scenario, rule reachable_failed_rocket)
  then show ?thesis
    unfolding orbiting_rocket_eq failed_rocket_eq
    by (simp add: performPreLaunchChecks_def launch_def createStage_def)
qed

text \<open>
  Claim C3.  In every state whose status is not \<open>IN_FLIGHT\<close>, \<open>advanceTime\<close> throws the
  invalid-state exception for any number of seconds and leaves the whole rocket (stage,
  fuel, altitude, speed, status and strategy) as it was.
\<close>

theorem advanceTime_not_in_flight:
  assumes "status (state s) \<noteq> IN_FLIGHT"
  shows "advanceTime seconds s = (Some (InvalidStateException ''Rocket is not in flight''), s)"
  using assms by (simp add: advanceTime_def)

theorem advanceTime_not_in_flight_witness:
  "status (state orbiting_rocket) = ORBIT_ACHIEVED \<and>
   advanceTime 60 orbiting_rocket =
     (Some (InvalidStateException ''Rocket is not in flight''), orbiting_rocket) \<and>
   status (state new_RocketSystem) = PRE_LAUNCH \<and>
   advanceTime 1 new_RocketSystem =
     (Some (InvalidStateException ''Rocket is not in flight''), new_RocketSystem)"
  using advanceTime_not_in_flight [of orbiting_rocket 60]
    advanceTime_not_in_flight [of new_RocketSystem 1]
  by (simp add: orbiting_rocket_eq new_RocketSystem_def new_RocketState_def)

text \<open>
  Claim C4.  In every reachable state in flight a strategy is installed, and one second of
  flight leaves a reachable state whose fuel is at least 0 and at most the fuel before,
  which is at most 100: when the fuel less the burn rate is at most 0 the fuel becomes
  exactly 0 and the status \<open>MISSION_FAILED\<close>, otherwise the fuel goes down by the burn
  rate.  A whole call of \<open>advanceTime\<close>, for any number of seconds, leaves the fuel between
  0 and the fuel before.
\<close>

theorem fuel_non_increasing_clamped:
  assumes "reachable s" and "status (state s) = IN_FLIGHT"
  shows "\<exists>strategy s'. currentStageStrategy s = Some strategy \<and>
           snd (updateFlightParameters s) = s' \<and> reachable s' \<and>
           0 \<le> fuel (state s') \<and> fuel (state s') \<le> fuel (state s) \<and> fuel (state s) \<le> 100 \<and>
           (if fuel (state s) - getFuelConsumptionRate strategy \<le> 0
            then fuel (state s') = 0 \<and> status (state s') = MISSION_FAILED
            else fuel (state s') = fuel (state s) - getFuelConsumptionRate strategy) \<and>
           (\<forall>seconds.
              0 \<le> fuel (state (snd (advanceTime seconds s))) \<and>
              fuel (state (snd (advanceTime seconds s))) \<le> fuel (state s))"
proof -
  from in_flight_strategy [OF assms] obtain strategy where
    strategy: "currentStageStrategy s = Some strategy" ..
  have bounds: "0 \<le> fuel (state s)" "fuel (state s) \<le> 100"
    using reachable_consistent [OF assms(1)] by (simp_all add: consistent_def)
  have calls: "0 \<le> fuel (state (snd (advanceTime seconds s))) \<and>
      fuel (state (snd (advanceTime seconds s))) \<le> fuel (state s)" for seconds
    using forLoop_fuel [of s 0 seconds] bounds(1) assms(2) by (simp add: advanceTime_def)
  have clamp: "if fuel (state s) - getFuelConsumptionRate strategy \<le> 0
      then fuel (state (snd (updateFlightParameters s))) = 0 \<and>
           status (state (snd (updateFlightParameters s))) = MISSION_FAILED
      else fuel (state (snd (updateFlightParameters s))) =
           fuel (state s) - getFuelConsumptionRate strategy"
    using step_fuel_exact [OF strategy] by (simp split: if_splits)
  from strategy reachable_second [OF assms] step_fuel [OF bounds(1)] bounds(2) clamp calls
  show ?thesis
    by blast
qed

theorem fuel_non_increasing_clamped_witness:
  "reachable launched_rocket \<and> status (state launched_rocket) = IN_FLIGHT \<and>
   fuel (state launched_rocket) = 100 \<and>
   fuel (state (snd (updateFlightParameters launched_rocket))) = 99 \<and>
   reachable nearly_empty_rocket \<and> status (state nearly_empty_rocket) = IN_FLIGHT \<and>
   fuel (state nearly_empty_rocket) = 1 / 2 \<and>
   fuel (state (snd (updateFlightParameters nearly_empty_rocket))) = 0 \<and>
   status (state (snd (updateFlightParameters nearly_empty_rocket))) = MISSION_FAILED \<and>
   0 \<le> fuel (state (snd (advanceTime 3 nearly_empty_rocket))) \<and>
   fuel (state (snd (advanceTime 3 nearly_empty_rocket))) \<le> 1 / 2"
proof -
  note r = reachable_scenario(2) reachable_nearly_empty_rocket
  have a: "status (state launched_rocket) = IN_FLIGHT"
    "currentStageStrategy launched_rocket = Some Stage1Strategy"
    "fuel (state launched_rocket) = 100"
    by (simp_all add: launched_rocket_eq)
  have b: "status (state nearly_empty_rocket) = IN_FLIGHT"
    "currentStageStrategy nearly_empty_rocket = Some Stage2Strategy"
    "fuel (state nearly_empty_rocket) = 1 / 2"
    by (simp_all add: nearly_empty_rocket_eq)
  from fuel_non_increasing_clamped [OF r(1) a(1)] a(2,3)
  have "fuel (state (snd (updateFlightParameters launched_rocket))) = 99"
    by auto
  moreover from fuel_non_increasing_clamped [OF r(2) b(1)] b(2,3)
  have "fuel (state (snd (updateFlightParameters nearly_empty_rocket))) = 0 \<and>
    status (state (snd (updateFlightParameters nearly_empty_rocket))) = MISSION_FAILED \<and>
    0 \<le> fuel (state (snd (advanceTime 3 nearly_empty_rocket))) \<and>
    fuel (state (snd (advanceTime 3 nearly_empty_rocket))) \<le> 1 / 2"
    by auto
  ultimately show ?thesis
    using a b r by simp
qed

text \<open>
  Claim C5.  Neither one second of flight nor a whole call of \<open>advanceTime\<close> lowers the
  altitude or the speed.  A second that returns true (no halt) raises the altitude by
  exactly the altitude increment and the speed by exactly the speed increment of the
  strategy at the start of the second; a second that exhausts the fuel halts with
  \<open>MISSION_FAILED\<close> and leaves altitude and speed as they were.
\<close>

theorem altitude_speed_non_decreasing:
  "altitude (state s) \<le> altitude (state (snd (updateFlightParameters s))) \<and>
   speed (state s) \<le> speed (state (snd (updateFlightParameters s))) \<and>
   altitude (state s) \<le> altitude (state (snd (advanceTime seconds s))) \<and>
   speed (state s) \<le> speed (state (snd (advanceTime seconds s))) \<and>
   (fst (updateFlightParameters s) = Inr True \<longrightarrow>
      (\<exists>strategy. currentStageStrategy s = Some strategy \<and>
         altitude (state (snd (updateFlightParameters s))) =
           altitude (state s) + getAltitudeIncrement strategy \<and>
         speed (state (snd (updateFlightParameters s))) =
           speed (state s) + getSpeedIncrement strategy)) \<and>
   (\<forall>strategy.
      currentStageStrategy s = Some strategy \<and>
      fuel (state s) - getFuelConsumptionRate strategy \<le> 0 \<longrightarrow>
        fst (updateFlightParameters s) = Inr False \<and>
        status (state (snd (updateFlightParameters s))) = MISSION_FAILED \<and>
        altitude (state (snd (updateFlightParameters s))) = altitude (state s) \<and>
        speed (state (snd (updateFlightParameters s))) = speed (state s))"
proof -
  have calls: "altitude (state s) \<le> altitude (state (snd (advanceTime seconds s))) \<and>
      speed (state s) \<le> speed (state (snd (advanceTime seconds s)))"
    using forLoop_altitude_speed [of s 0 seconds] by (simp add: advanceTime_def)
  have moving: "\<exists>strategy. currentStageStrategy s = Some strategy \<and>
         altitude (state (snd (updateFlightParameters s))) =
           altitude (state s) + getAltitudeIncrement strategy \<and>
         speed (state (snd (updateFlightParameters s))) =
           speed (state s) + getSpeedIncrement strategy"
    if "fst (updateFlightParameters s) = Inr True"
    using step_increments [OF that] by blast
  have exhausted: "fst (updateFlightParameters s) = Inr False \<and>
        status (state (snd (updateFlightParameters s))) = MISSION_FAILED \<and>
        altitude (state (snd (updateFlightParameters s))) = altitude (state s) \<and>
        speed (state (snd (updateFlightParameters s))) = speed (state s)"
    if "currentStageStrategy s = Some strategy"
      and "fuel (state s) - getFuelConsumptionRate strategy \<le> 0" for strategy
    using step_exhausted [OF that] by simp
  from step_altitude_speed [of s] calls moving exhausted show ?thesis
    by blast
qed

theorem altitude_speed_non_decreasing_witness:
  "fst (updateFlightParameters launched_rocket) = Inr True \<and>
   altitude (state launched_rocket) = 0 \<and> speed (state launched_rocket) = 0 \<and>
   altitude (state (snd (updateFlightParameters launched_rocket))) = 10 \<and>
   speed (state (snd (updateFlightParameters launched_rocket))) = 1000 \<and>
   currentStageStrategy nearly_empty_rocket = Some Stage2Strategy \<and>
   fuel (state nearly_empty_rocket) - getFuelConsumptionRate Stage2Strategy \<le> 0 \<and>
   fst (updateFlightParameters nearly_empty_rocket) = Inr False \<and>
   altitude (state (snd (updateFlightParameters nearly_empty_rocket))) = 1065 \<and>
   speed (state (snd (updateFlightParameters nearly_empty_rocket))) = 101600"
proof -
  have a: "fst (updateFlightParameters launched_rocket) = Inr True"
    "currentStageStrategy launched_rocket = Some Stage1Strategy"
    "altitude (state launched_rocket) = 0" "speed (state launched_rocket) = 0"
    by (simp_all add: launched_rocket_eq stage1_second)
  have b: "currentStageStrategy nearly_empty_rocket = Some Stage2Strategy"
    "fuel (state nearly_empty_rocket) - getFuelConsumptionRate Stage2Strategy \<le> 0"
    "altitude (state nearly_empty_rocket) = 1065" "speed (state nearly_empty_rocket) = 101600"
    by (simp_all add: nearly_empty_rocket_eq)
  from altitude_speed_non_decreasing [of launched_rocket] a
  have "altitude (state (snd (updateFlightParameters launched_rocket))) = 10 \<and>
    speed (state (snd (updateFlightParameters launched_rocket))) = 1000"
    by auto
  moreover from altitude_speed_non_decreasing [of nearly_empty_rocket] b
  have "fst (updateFlightParameters nearly_empty_rocket) = Inr False \<and>
    altitude (state (snd (updateFlightParameters nearly_empty_rocket))) = 1065 \<and>
    speed (state (snd (updateFlightParameters nearly_empty_rocket))) = 101600"
    by auto
  ultimately show ?thesis
    using a b by simp
qed

text \<open>
  Claim C6.  \<open>launch\<close> throws the invalid-state exception and leaves the rocket as it was
  whenever the status is not \<open>READY_TO_LAUNCH\<close>; from \<open>READY_TO_LAUNCH\<close> it returns
  normally with stage 1, status \<open>IN_FLIGHT\<close> and the stage 1 strategy installed, every other
  field kept.
\<close>

theorem launch_guard:
  "(status (state s) \<noteq> READY_TO_LAUNCH \<longrightarrow>
      launch s =
        (Some (InvalidStateException ''Cannot launch: Pre-launch checks not completed''), s)) \<and>
   (status (state s) = READY_TO_LAUNCH \<longrightarrow>
      launch s =
        (None, s\<lparr>state := (state s)\<lparr>stage := 1, status := IN_FLIGHT\<rparr>,
                 currentStageStrategy := Some Stage1Strategy\<rparr>))"
  by (simp add: launch_def createStage_def)

theorem launch_guard_witness:
  "status (state new_RocketSystem) = PRE_LAUNCH \<and>
   launch new_RocketSystem =
     (Some (InvalidStateException ''Cannot launch: Pre-launch checks not completed''),
      new_RocketSystem) \<and>
   status (state checked_rocket) = READY_TO_LAUNCH \<and>
   launch checked_rocket =
     (None,
      \<lparr>state = \<lparr>stage = 1, fuel = 100, altitude = 0, speed = 0, status = IN_FLIGHT\<rparr>,
       currentStageStrategy = Some Stage1Strategy\<rparr>)"
  using launch_guard [of new_RocketSystem] launch_guard [of checked_rocket]
  by (simp add: checked_rocket_eq new_RocketSystem_def new_RocketState_def)

text \<open>
  Claim C7.  \<open>executeCommand\<close> on a command whose guard is false throws the invalid-state
  exception that names the command's description and leaves the world (rocket and
  history) as it was.  On a command whose guard is true and whose \<open>execute\<close> returns, it
  returns with the rocket \<open>execute\<close> left and the command appended at the end of the
  history; when \<open>execute\<close> throws, the same exception is thrown and the history is left as
  it was.  \<open>getHistory\<close> returns a fresh array with the history's contents: a reference
  other than the invoker's, so pushing to it or overwriting it leaves the stored history as
  it was.
\<close>

theorem executeCommand_history:
  "(\<not> canExecute command (rocketSystem w) \<longrightarrow>
      executeCommand this command w =
        (Some (InvalidStateException (''Cannot execute command: '' @ getDescription command)),
         w)) \<and>
   (\<forall>r. canExecute command (rocketSystem w) \<and> execute command (rocketSystem w) = (None, r) \<longrightarrow>
      executeCommand this command w =
        (None, w\<lparr>rocketSystem := r, heap := push (commandHistory this) command (heap w)\<rparr>) \<and>
      cells (push (commandHistory this) command (heap w)) (commandHistory this) =
        cells (heap w) (commandHistory this) @ [command]) \<and>
   (\<forall>e r. canExecute command (rocketSystem w) \<and>
      execute command (rocketSystem w) = (Some e, r) \<longrightarrow>
      executeCommand this command w = (Some e, w\<lparr>rocketSystem := r\<rparr>)) \<and>
   (commandHistory this < fresh h \<longrightarrow>
      (\<exists>copy h'. getHistory this h = (copy, h') \<and>
         copy \<noteq> commandHistory this \<and>
         cells h' copy = cells h (commandHistory this) \<and>
         cells h' (commandHistory this) = cells h (commandHistory this) \<and>
         (\<forall>x. cells (push copy x h') (commandHistory this) = cells h (commandHistory this)) \<and>
         (\<forall>xs. cells (h'\<lparr>cells := (cells h')(copy := xs)\<rparr>) (commandHistory this) =
            cells h (commandHistory this))))"
  by (simp add: executeCommand_def getHistory_def newArray_def push_def)

theorem executeCommand_history_witness:
  "executeCommand first_invoker LaunchCommand first_world =
     (Some (InvalidStateException ''Cannot execute command: Launch the rocket''), first_world) \<and>
   cells (heap first_world) (commandHistory first_invoker) = [] \<and>
   executeCommand first_invoker StartChecksCommand first_world = (None, second_world) \<and>
   rocketSystem second_world = checked_rocket \<and>
   cells (heap second_world) (commandHistory first_invoker) = [StartChecksCommand] \<and>
   executeCommand first_invoker LaunchCommand second_world = (None, third_world) \<and>
   rocketSystem third_world = launched_rocket \<and>
   cells (heap third_world) (commandHistory first_invoker) =
     [StartChecksCommand, LaunchCommand] \<and>
   executeCommand first_invoker UncheckedLaunchCommand first_world =
     (Some (InvalidStateException ''Cannot launch: Pre-launch checks not completed''),
      first_world) \<and>
   fst (getHistory first_invoker (heap second_world)) \<noteq> commandHistory first_invoker \<and>
   cells (snd (getHistory first_invoker (heap second_world)))
     (fst (getHistory first_invoker (heap second_world))) = [StartChecksCommand] \<and>
   cells (push (fst (getHistory first_invoker (heap second_world))) LaunchCommand
            (snd (getHistory first_invoker (heap second_world))))
     (commandHistory first_invoker) = [StartChecksCommand]"
proof -
  note w = first_invoker_eq
  have empty: "cells (heap first_world) (commandHistory first_invoker) = []"
    by (simp add: w)
  from executeCommand_history [where command = LaunchCommand and w = first_world
      and this = first_invoker]
  have refused: "executeCommand first_invoker LaunchCommand first_world =
     (Some (InvalidStateException ''Cannot execute command: Launch the rocket''), first_world)"
    using command_guards(1,5) by (simp add: w(3))
  from executeCommand_history [where command = StartChecksCommand and w = first_world
      and this = first_invoker]
  have first: "executeCommand first_invoker StartChecksCommand first_world =
        (None, first_world\<lparr>rocketSystem := checked_rocket,
           heap := push (commandHistory first_invoker) StartChecksCommand (heap first_world)\<rparr>)"
    and "cells (push (commandHistory first_invoker) StartChecksCommand (heap first_world))
           (commandHistory first_invoker) = [StartChecksCommand]"
    using command_guards(2,6) empty by (simp_all add: w(3))
  then have second: "rocketSystem second_world = checked_rocket"
    "cells (heap second_world) (commandHistory first_invoker) = [StartChecksCommand]"
    "executeCommand first_invoker StartChecksCommand first_world = (None, second_world)"
    "commandHistory first_invoker < fresh (heap second_world)"
    by (simp_all add: second_world_def w(1,2) push_def)
  from executeCommand_history [where command = LaunchCommand and w = second_world
      and this = first_invoker]
  have "executeCommand first_invoker LaunchCommand second_world =
        (None, second_world\<lparr>rocketSystem := launched_rocket,
           heap := push (commandHistory first_invoker) LaunchCommand (heap second_world)\<rparr>)"
    and "cells (push (commandHistory first_invoker) LaunchCommand (heap second_world))
           (commandHistory first_invoker) = [StartChecksCommand, LaunchCommand]"
    using command_guards(4,7) second(1,2) by simp_all
  then have third: "rocketSystem third_world = launched_rocket"
    "cells (heap third_world) (commandHistory first_invoker) =
       [StartChecksCommand, LaunchCommand]"
    "executeCommand first_invoker LaunchCommand second_world = (None, third_world)"
    by (simp_all add: third_world_def)
  from executeCommand_history [where command = UncheckedLaunchCommand and w = first_world
      and this = first_invoker]
  have thrown: "executeCommand first_invoker UncheckedLaunchCommand first_world =
     (Some (InvalidStateException ''Cannot launch: Pre-launch checks not completed''),
      first_world)"
    using command_guards(3,8) by (simp add: w(3) first_world_def)
  from executeCommand_history [where this = first_invoker and h = "heap second_world"] second(4)
  obtain copy h' where copy: "getHistory first_invoker (heap second_world) = (copy, h')"
    "copy \<noteq> commandHistory first_invoker"
    "cells h' copy = cells (heap second_world) (commandHistory first_invoker)"
    "\<forall>x. cells (push copy x h') (commandHistory first_invoker) =
       cells (heap second_world) (commandHistory first_invoker)"
    by blast
  from copy second(2) have copied:
    "fst (getHistory first_invoker (heap second_world)) \<noteq> commandHistory first_invoker"
    "cells (snd (getHistory first_invoker (heap second_world)))
       (fst (getHistory first_invoker (heap second_world))) = [StartChecksCommand]"
    "cells (push (fst (getHistory first_invoker (heap second_world))) LaunchCommand
            (snd (getHistory first_invoker (heap second_world))))
       (commandHistory first_invoker) = [StartChecksCommand]"
    by simp_all
  from refused empty second third thrown copied show ?thesis
    by blast
qed

text \<open>
  Claim C8.  \<open>createStage\<close> returns the stage 1 strategy (burn 1, altitude +10, speed
  +1000, separation at fuel \<open>\<le> 30\<close>) for 1, the stage 2 strategy (burn 1/2, altitude +15,
  speed +800, no separation) for 2, and throws \<open>SimulatorException\<close> for every other
  integer.  It is a function of its argument alone.
\<close>

theorem createStage_table:
  "createStage 1 = Inr Stage1Strategy \<and>
   getFuelConsumptionRate Stage1Strategy = 1 \<and>
   getAltitudeIncrement Stage1Strategy = 10 \<and>
   getSpeedIncrement Stage1Strategy = 1000 \<and>
   (\<forall>fuel. shouldSeparate Stage1Strategy fuel = (fuel \<le> 30)) \<and>
   createStage 2 = Inr Stage2Strategy \<and>
   getFuelConsumptionRate Stage2Strategy = 1 / 2 \<and>
   getAltitudeIncrement Stage2Strategy = 15 \<and>
   getSpeedIncrement Stage2Strategy = 800 \<and>
   (\<forall>fuel. \<not> shouldSeparate Stage2Strategy fuel) \<and>
   (\<forall>n. n \<noteq> 1 \<and> n \<noteq> 2 \<longrightarrow>
      createStage n = Inl (SimulatorException (''Unknown stage: '' @ numberToString n)))"
  by (simp add: createStage_def)

theorem createStage_table_witness:
  "createStage 3 = Inl (SimulatorException ''Unknown stage: 3'') \<and>
   createStage 0 = Inl (SimulatorException ''Unknown stage: 0'') \<and>
   createStage (- 1) = Inl (SimulatorException ''Unknown stage: -1'') \<and>
   createStage 12 = Inl (SimulatorException ''Unknown stage: 12'')"
proof -
  have "\<forall>n. n \<noteq> 1 \<and> n \<noteq> 2 \<longrightarrow>
      createStage n = Inl (SimulatorException (''Unknown stage: '' @ numberToString n))"
    using createStage_table by blast
  then have "createStage n = Inl (SimulatorException (''Unknown stage: '' @ numberToString n))"
    if "n \<in> {3, 0, - 1, 12}" for n
    using that by auto
  then show ?thesis
    by (simp add: numberToString_def digits.simps digit_def)
qed

text \<open>
  Claim C9.  In a state in flight with the stage 1 strategy and the stage counter at 1,
  when the fuel less the stage 1 burn is in \<open>(0, 30]\<close> and the orbit condition does not hold
  after the increments, one second of flight returns true, applies the stage 1 rates, and
  leaves stage 2 with the stage 2 strategy; the second after that applies the stage 2
  rates.  Every reachable state with the stage 1 strategy has the counter at 1
  (\<open>reachable_consistent\<close>).
\<close>

theorem stage1_separation:
  assumes "status (state s) = IN_FLIGHT"
    and "currentStageStrategy s = Some Stage1Strategy"
    and "stage (state s) = 1"
    and "0 < fuel (state s) - getFuelConsumptionRate Stage1Strategy"
    and "fuel (state s) - getFuelConsumptionRate Stage1Strategy \<le> 30"
    and "\<not> (altitude (state s) + getAltitudeIncrement Stage1Strategy \<ge> ORBIT_ALTITUDE \<and>
            fuel (state s) - getFuelConsumptionRate Stage1Strategy \<ge> MIN_FUEL_FOR_ORBIT)"
  shows "\<exists>s'. updateFlightParameters s = (Inr True, s') \<and>
           s' = \<lparr>state = \<lparr>stage = 2,
                           fuel = fuel (state s) - getFuelConsumptionRate Stage1Strategy,
                           altitude = altitude (state s) + getAltitudeIncrement Stage1Strategy,
                           speed = speed (state s) + getSpeedIncrement Stage1Strategy,
                           status = IN_FLIGHT\<rparr>,
                 currentStageStrategy = Some Stage2Strategy\<rparr> \<and>
           fuel (state (snd (updateFlightParameters s'))) =
             (if fuel (state s') - getFuelConsumptionRate Stage2Strategy \<le> 0 then 0
              else fuel (state s') - getFuelConsumptionRate Stage2Strategy) \<and>
           (if fuel (state s') - getFuelConsumptionRate Stage2Strategy \<le> 0
            then altitude (state (snd (updateFlightParameters s'))) = altitude (state s') \<and>
                 speed (state (snd (updateFlightParameters s'))) = speed (state s')
            else altitude (state (snd (updateFlightParameters s'))) =
                   altitude (state s') + getAltitudeIncrement Stage2Strategy \<and>
                 speed (state (snd (updateFlightParameters s'))) =
                   speed (state s') + getSpeedIncrement Stage2Strategy)"
proof -
  obtain n f a v st where s: "state s = \<lparr>stage = n, fuel = f, altitude = a, speed = v, status = st\<rparr>"
    by (cases "state s")
  obtain c where "s = \<lparr>state = state s, currentStageStrategy = c\<rparr>"
    by (cases s) simp
  with s assms(1,2,3) have s_eq:
    "s = \<lparr>state = \<lparr>stage = 1, fuel = f, altitude = a, speed = v, status = IN_FLIGHT\<rparr>,
          currentStageStrategy = Some Stage1Strategy\<rparr>"
    by (cases s) simp
  from assms(4,5,6) show ?thesis
    unfolding s_eq
    by (simp add: stage1_second stage2_second ORBIT_ALTITUDE_def MIN_FUEL_FOR_ORBIT_def)
qed

theorem stage1_separation_witness:
  "reachable low_fuel_rocket \<and>
   status (state low_fuel_rocket) = IN_FLIGHT \<and>
   currentStageStrategy low_fuel_rocket = Some Stage1Strategy \<and>
   stage (state low_fuel_rocket) = 1 \<and>
   fuel (state low_fuel_rocket) = 5 \<and> altitude (state low_fuel_rocket) = 950 \<and>
   updateFlightParameters low_fuel_rocket =
     (Inr True,
      \<lparr>state = \<lparr>stage = 2, fuel = 4, altitude = 960, speed = 96000, status = IN_FLIGHT\<rparr>,
       currentStageStrategy = Some Stage2Strategy\<rparr>)"
proof -
  have a: "status (state low_fuel_rocket) = IN_FLIGHT"
    "currentStageStrategy low_fuel_rocket = Some Stage1Strategy"
    "stage (state low_fuel_rocket) = 1"
    "0 < fuel (state low_fuel_rocket) - getFuelConsumptionRate Stage1Strategy"
    "fuel (state low_fuel_rocket) - getFuelConsumptionRate Stage1Strategy \<le> 30"
    "\<not> (altitude (state low_fuel_rocket) + getAltitudeIncrement Stage1Strategy \<ge> ORBIT_ALTITUDE \<and>
        fuel (state low_fuel_rocket) - getFuelConsumptionRate Stage1Strategy \<ge> MIN_FUEL_FOR_ORBIT)"
    "fuel (state low_fuel_rocket) = 5" "altitude (state low_fuel_rocket) = 950"
    "speed (state low_fuel_rocket) = 95000"
    by (simp_all add: low_fuel_rocket_eq MIN_FUEL_FOR_ORBIT_def)
  from stage1_separation [OF a(1-6)] a(7-9)
  have "updateFlightParameters low_fuel_rocket =
     (Inr True,
      \<lparr>state = \<lparr>stage = 2, fuel = 4, altitude = 960, speed = 96000, status = IN_FLIGHT\<rparr>,
       currentStageStrategy = Some Stage2Strategy\<rparr>)"
    by auto
  with a reachable_low_fuel_rocket show ?thesis
    by simp
qed

text \<open>
  Claim C10.  In every reachable state the stage counter is between 0 and 2; whenever the
  separation predicate of the installed strategy can hold, the counter is 1, so
  \<open>separateStage\<close> asks \<open>createStage\<close> for stage 2; a second of flight never throws; and no
  public method throws anything but its own invalid-state exception, so the unknown-stage
  exception never escapes.
\<close>

theorem stage_at_most_two:
  assumes "reachable s"
  shows "0 \<le> stage (state s) \<and> stage (state s) \<le> 2 \<and>
    (\<forall>strategy f. currentStageStrategy s = Some strategy \<and> shouldSeparate strategy f \<longrightarrow>
       stage (state s) + 1 = 2 \<and> createStage (stage (state s) + 1) = Inr Stage2Strategy) \<and>
    (\<exists>continue. fst (updateFlightParameters s) = Inr continue) \<and>
    fst (performPreLaunchChecks s) = None \<and>
    (fst (launch s) = None \<or>
     fst (launch s) =
       Some (InvalidStateException ''Cannot launch: Pre-launch checks not completed'')) \<and>
    (\<forall>seconds. fst (advanceTime seconds s) = None \<or>
       fst (advanceTime seconds s) = Some (InvalidStateException ''Rocket is not in flight''))"
proof -
  note c = reachable_consistent [OF assms]
  have counter: "0 \<le> stage (state s) \<and> stage (state s) \<le> 2"
    using c by (auto simp: consistent_def split: option.splits IStageStrategy.splits)
  have separation: "stage (state s) + 1 = 2 \<and>
      createStage (stage (state s) + 1) = Inr Stage2Strategy"
    if "currentStageStrategy s = Some strategy \<and> shouldSeparate strategy f" for strategy f
    using c that by (cases strategy) (simp_all add: consistent_def createStage_def)
  have calls: "fst (advanceTime seconds s) = None \<or>
       fst (advanceTime seconds s) = Some (InvalidStateException ''Rocket is not in flight'')"
    for seconds
    using consistent_forLoop [OF c, of 0 seconds] by (simp add: advanceTime_def)
  have others: "fst (performPreLaunchChecks s) = None"
    "fst (launch s) = None \<or>
     fst (launch s) =
       Some (InvalidStateException ''Cannot launch: Pre-launch checks not completed'')"
    by (simp_all add: performPreLaunchChecks_def launch_def createStage_def)
  from counter separation consistent_step(2) [OF c] others calls show ?thesis
    by blast
qed

theorem stage_at_most_two_witness:
  "reachable low_fuel_rocket \<and> stage (state low_fuel_rocket) = 1 \<and>
   currentStageStrategy low_fuel_rocket = Some Stage1Strategy \<and>
   shouldSeparate Stage1Strategy 4 \<and>
   createStage (stage (state low_fuel_rocket) + 1) = Inr Stage2Strategy \<and>
   reachable nearly_empty_rocket \<and> stage (state nearly_empty_rocket) = 2 \<and>
   fst (advanceTime 100 nearly_empty_rocket) \<noteq> Some (SimulatorException ''Unknown stage: 3'')"
proof -
  have a: "stage (state low_fuel_rocket) = 1"
    "currentStageStrategy low_fuel_rocket = Some Stage1Strategy"
    "shouldSeparate Stage1Strategy 4"
    by (simp_all add: low_fuel_rocket_eq)
  have b: "stage (state nearly_empty_rocket) = 2"
    "status (state nearly_empty_rocket) = IN_FLIGHT"
    by (simp_all add: nearly_empty_rocket_eq)
  from stage_at_most_two [OF reachable_low_fuel_rocket] a
  have "createStage (stage (state low_fuel_rocket) + 1) = Inr Stage2Strategy"
    by blast
  moreover from stage_at_most_two [OF reachable_nearly_empty_rocket]
  have "fst (advanceTime 100 nearly_empty_rocket) = None \<or>
       fst (advanceTime 100 nearly_empty_rocket) =
         Some (InvalidStateException ''Rocket is not in flight'')"
    by blast
  then have "fst (advanceTime 100 nearly_empty_rocket) \<noteq>
      Some (SimulatorException ''Unknown stage: 3'')"
    by auto
  ultimately show ?thesis
    using a b reachable_low_fuel_rocket reachable_nearly_empty_rocket by simp
qed

end
